theory Spec2Isabelle
  imports Complex_Main
begin

section \<open>The unidirectional compression spring of NTRT\<close>

text \<open>
  A shallow embedding of \<^verbatim>\<open>src/core/tgBulletUnidirectionalCompressionSpring.cpp\<close>.

  The C++ type \<^verbatim>\<open>double\<close> is modelled by \<^typ>\<open>real\<close>: rounding, infinities and
  NaN are outside the model. A pointer is an \<^typ>\<open>'a option\<close> (\<^verbatim>\<open>NULL\<close> is
  \<^term>\<open>None\<close>), and dereferencing \<^verbatim>\<open>NULL\<close> is the error \<open>NullDereference\<close>.
  A failed \<^verbatim>\<open>assert\<close> is the error \<open>AssertionFailed\<close> (the debug build), and the two
  exceptions thrown by \<^verbatim>\<open>step\<close> are \<open>InvalidArgument\<close> and \<open>RuntimeError\<close>.
\<close>

subsection \<open>Vectors of the physics library\<close>

text \<open>
  \<^verbatim>\<open>btVector3\<close> belongs to the Bullet library and is not part of the repository.
  Only the operations the spring uses are modelled: subtraction, unary minus,
  multiplication by a scalar, the dot product and the Euclidean length.
\<close>

datatype btVector3 = btVector3 (getX: real) (getY: real) (getZ: real)

definition vec_sub :: "btVector3 \<Rightarrow> btVector3 \<Rightarrow> btVector3" where
  "vec_sub u v = btVector3 (getX u - getX v) (getY u - getY v) (getZ u - getZ v)"

definition vec_neg :: "btVector3 \<Rightarrow> btVector3" where
  "vec_neg v = btVector3 (- getX v) (- getY v) (- getZ v)"

definition vec_scale :: "btVector3 \<Rightarrow> real \<Rightarrow> btVector3" where
  "vec_scale v c = btVector3 (getX v * c) (getY v * c) (getZ v * c)"

definition vec_dot :: "btVector3 \<Rightarrow> btVector3 \<Rightarrow> real" where
  "vec_dot u v = getX u * getX v + getY u * getY v + getZ u * getZ v"

definition vec_length :: "btVector3 \<Rightarrow> real" where
  "vec_length v = sqrt (vec_dot v v)"

subsection \<open>Anchors, engine calls and errors\<close>

text \<open>
  An anchor (\<^verbatim>\<open>tgBulletSpringCableAnchor\<close>) exposes its world position, its position
  relative to its body and the body it is attached to. A rigid body is named by a
  number; two anchors may name the same body.
\<close>

record tgBulletSpringCableAnchor =
  worldPosition :: btVector3
  relativePosition :: btVector3
  attachedBody :: nat

text \<open>
  The spring writes to the physics engine through two calls on a rigid body,
  \<^verbatim>\<open>activate()\<close> and \<^verbatim>\<open>applyImpulse(impulse, rel_pos)\<close>. The effect of the spring on
  the engine is the sequence of these calls, in the order they are made.
\<close>

datatype engine_call =
    Activate nat
  | ApplyImpulse nat btVector3 btVector3

datatype error = InvalidArgument | RuntimeError | AssertionFailed | NullDereference

datatype outcome = Ok | Threw error

subsection \<open>The spring\<close>

text \<open>
  The members of the base class \<^verbatim>\<open>tgBulletCompressionSpring\<close>, and the one member the
  unidirectional spring adds, the pointer \<^verbatim>\<open>m_direction\<close>.
\<close>

record tgBulletCompressionSpring =
  m_anchors :: "tgBulletSpringCableAnchor option list"
  anchor1 :: "tgBulletSpringCableAnchor option"
  anchor2 :: "tgBulletSpringCableAnchor option"
  m_isFreeEndAttached :: bool
  m_coefK :: real
  m_coefD :: real
  m_restLength :: real
  m_prevLength :: real
  m_velocity :: real
  m_dampingForce :: real

record tgBulletUnidirectionalCompressionSpring = tgBulletCompressionSpring +
  m_direction :: "btVector3 option"

text \<open>
  The accessors \<^verbatim>\<open>getCoefK\<close>, \<^verbatim>\<open>getCoefD\<close>, \<^verbatim>\<open>getRestLength\<close> and
  \<^verbatim>\<open>isFreeEndAttached\<close> of the base class read the member of the same name.
\<close>

abbreviation getCoefK :: "'a tgBulletCompressionSpring_scheme \<Rightarrow> real" where
  "getCoefK s \<equiv> m_coefK s"

abbreviation getCoefD :: "'a tgBulletCompressionSpring_scheme \<Rightarrow> real" where
  "getCoefD s \<equiv> m_coefD s"

abbreviation getRestLength :: "'a tgBulletCompressionSpring_scheme \<Rightarrow> real" where
  "getRestLength s \<equiv> m_restLength s"

abbreviation isFreeEndAttached :: "'a tgBulletCompressionSpring_scheme \<Rightarrow> bool" where
  "isFreeEndAttached s \<equiv> m_isFreeEndAttached s"

text \<open>
  Modelled from the spec: \<^verbatim>\<open>tgBulletCompressionSpring::getCurrentAnchorDistance\<close> is
  defined in the base class, whose source is missing. The spec describes the base
  spring as the omnidirectional variant, with the "distance measured directly between
  anchors": the length of the vector from anchor1 to anchor2 in world space. Being a
  member of the base class, it cannot read \<^verbatim>\<open>m_direction\<close>.
\<close>

definition getCurrentAnchorDistance :: "'a tgBulletCompressionSpring_scheme \<Rightarrow> error + real" where
  "getCurrentAnchorDistance s =
     (case anchor1 s of
        None \<Rightarrow> Inl NullDereference
      | Some a1 \<Rightarrow>
          (case anchor2 s of
             None \<Rightarrow> Inl NullDereference
           | Some a2 \<Rightarrow> Inr (vec_length (vec_sub (worldPosition a2) (worldPosition a1)))))"

text \<open>
  Modelled from the spec: \<^verbatim>\<open>tgBulletCompressionSpring::getAnchorDirectionUnitVector\<close>
  is defined in the base class, whose source is missing. The spec gives it as the
  "unit vector from anchor1 to anchor2 in world space". Where the two anchors
  coincide the C++ divides by zero and the components are NaN; the value of the
  model there, the zero vector, is not the program's.
\<close>

definition getAnchorDirectionUnitVector :: "'a tgBulletCompressionSpring_scheme \<Rightarrow> error + btVector3" where
  "getAnchorDirectionUnitVector s =
     (case anchor1 s of
        None \<Rightarrow> Inl NullDereference
      | Some a1 \<Rightarrow>
          (case anchor2 s of
             None \<Rightarrow> Inl NullDereference
           | Some a2 \<Rightarrow>
               (let dist = vec_sub (worldPosition a2) (worldPosition a1)
                in Inr (vec_scale dist (1 / vec_length dist)))))"

text \<open>
  \<^verbatim>\<open>getCurrentAnchorDistanceAlongDirection\<close> (lines 101-110): the vector between the
  anchors, dotted with the direction of the spring.
\<close>

definition getCurrentAnchorDistanceAlongDirection ::
  "tgBulletUnidirectionalCompressionSpring \<Rightarrow> error + real" where
  "getCurrentAnchorDistanceAlongDirection s =
     (case anchor2 s of
        None \<Rightarrow> Inl NullDereference
      | Some a2 \<Rightarrow>
          (case anchor1 s of
             None \<Rightarrow> Inl NullDereference
           | Some a1 \<Rightarrow>
               (let dist = vec_sub (worldPosition a2) (worldPosition a1)
                in case m_direction s of
                     None \<Rightarrow> Inl NullDereference
                   | Some d \<Rightarrow> Inr (vec_dot dist d))))"

text \<open>
  \<^verbatim>\<open>getCurrentSpringLength\<close> (lines 119-144). The distance it reads is
  \<^verbatim>\<open>getCurrentAnchorDistance()\<close>.
\<close>

definition getCurrentSpringLength :: "tgBulletUnidirectionalCompressionSpring \<Rightarrow> error + real" where
  "getCurrentSpringLength s =
     (let springLength = getRestLength s
      in case getCurrentAnchorDistance s of
           Inl e \<Rightarrow> Inl e
         | Inr currAnchorDist \<Rightarrow>
             if isFreeEndAttached s then Inr currAnchorDist
             else if currAnchorDist < getRestLength s then Inr currAnchorDist
             else Inr springLength)"

text \<open>\<^verbatim>\<open>getSpringForce\<close> (lines 153-176), with its assertion.\<close>

definition getSpringForce :: "tgBulletUnidirectionalCompressionSpring \<Rightarrow> error + real" where
  "getSpringForce s =
     (case getCurrentSpringLength s of
        Inl e \<Rightarrow> Inl e
      | Inr len \<Rightarrow>
          (let springForce = - getCoefK s * (len - getRestLength s)
           in if \<not> isFreeEndAttached s \<and> \<not> (springForce \<ge> 0) then Inl AssertionFailed
              else Inr springForce))"

text \<open>
  \<^verbatim>\<open>calculateAndApplyForce\<close> (lines 183-232). The state is the spring and the calls
  made on the engine so far; an error is returned with the state reached when it
  was raised.
\<close>

type_synonym sim_state = "tgBulletUnidirectionalCompressionSpring \<times> engine_call list"

definition calculateAndApplyForce :: "real \<Rightarrow> sim_state \<Rightarrow> outcome \<times> sim_state" where
  "calculateAndApplyForce dt st =
     (let s = fst st; calls = snd st
      in case getSpringForce s of
           Inl e \<Rightarrow> (Threw e, st)
         | Inr magnitude \<Rightarrow>
        (case getCurrentSpringLength s of
           Inl e \<Rightarrow> (Threw e, st)
         | Inr currLength \<Rightarrow>
        (case getAnchorDirectionUnitVector s of
           Inl e \<Rightarrow> (Threw e, st)
         | Inr unitVector \<Rightarrow>
        (let changeInDeltaX = currLength - m_prevLength s;
             velocity = changeInDeltaX / dt;
             dampingForce = - getCoefD s * velocity;
             magnitude' = magnitude + dampingForce;
             force = vec_scale unitVector magnitude';
             s' = s\<lparr>m_velocity := velocity, m_dampingForce := dampingForce,
                    m_prevLength := currLength\<rparr>
         in case anchor1 s' of
              None \<Rightarrow> (Threw NullDereference, (s', calls))
            | Some a1 \<Rightarrow>
           (let point1 = relativePosition a1;
                calls1 = calls @ [Activate (attachedBody a1),
                                  ApplyImpulse (attachedBody a1) (vec_scale force dt) point1]
            in case anchor2 s' of
                 None \<Rightarrow> (Threw NullDereference, (s', calls1))
               | Some a2 \<Rightarrow>
              (let point2 = relativePosition a2
               in (Ok, (s', calls1 @ [Activate (attachedBody a2),
                                      ApplyImpulse (attachedBody a2)
                                        (vec_scale (vec_neg force) dt) point2]))))))))"

text \<open>\<^verbatim>\<open>invariant\<close> (lines 234-244).\<close>

definition invariant :: "tgBulletUnidirectionalCompressionSpring \<Rightarrow> bool" where
  "invariant s \<longleftrightarrow>
     (m_coefK s > 0 \<and>
      m_coefD s \<ge> 0 \<and>
      m_prevLength s \<ge> 0 \<and>
      m_restLength s \<ge> 0 \<and>
      anchor1 s \<noteq> None \<and>
      anchor2 s \<noteq> None \<and>
      m_direction s \<noteq> None \<and>
      length (m_anchors s) \<ge> 2)"

text \<open>\<^verbatim>\<open>step\<close> (lines 79-96).\<close>

definition step :: "real \<Rightarrow> sim_state \<Rightarrow> outcome \<times> sim_state" where
  "step dt st =
     (if dt \<le> 0 then (Threw InvalidArgument, st)
      else case calculateAndApplyForce dt st of
             (Threw e, st') \<Rightarrow> (Threw e, st')
           | (Ok, st') \<Rightarrow>
               (case getCurrentSpringLength (fst st') of
                  Inl e \<Rightarrow> (Threw e, st')
                | Inr len \<Rightarrow>
                    if len \<le> 0 then (Threw RuntimeError, st')
                    else if invariant (fst st') then (Ok, st')
                    else (Threw AssertionFailed, st')))"

text \<open>
  Modelled from the spec: the constructor of the base class
  \<^verbatim>\<open>tgBulletCompressionSpring\<close>, whose source is missing. By the spec the spring is
  constructed with its anchors, its coefficients, its rest length and its free-end
  policy; at least two anchors must exist and the first two are anchor1 and anchor2;
  the previous length is initialised to the rest length. The transient velocity and
  damping force start at zero.
\<close>

definition tgBulletCompressionSpring_ctor ::
  "tgBulletSpringCableAnchor option list \<Rightarrow> bool \<Rightarrow> real \<Rightarrow> real \<Rightarrow> real
     \<Rightarrow> error + tgBulletCompressionSpring" where
  "tgBulletCompressionSpring_ctor anchors isFreeEndAttached' coefK coefD restLength =
     (case anchors of
        a1 # a2 # _ \<Rightarrow>
          Inr \<lparr>m_anchors = anchors, anchor1 = a1, anchor2 = a2,
               m_isFreeEndAttached = isFreeEndAttached', m_coefK = coefK, m_coefD = coefD,
               m_restLength = restLength, m_prevLength = restLength,
               m_velocity = 0, m_dampingForce = 0\<rparr>
      | _ \<Rightarrow> Inl AssertionFailed)"

text \<open>
  The constructor (lines 43-67): the base class is constructed, \<^verbatim>\<open>m_direction\<close> is
  set, the trace line dereferences \<^verbatim>\<open>m_direction\<close>, and the invariant is asserted.
\<close>

definition tgBulletUnidirectionalCompressionSpring_ctor ::
  "tgBulletSpringCableAnchor option list \<Rightarrow> bool \<Rightarrow> real \<Rightarrow> real \<Rightarrow> real
     \<Rightarrow> btVector3 option \<Rightarrow> error + tgBulletUnidirectionalCompressionSpring" where
  "tgBulletUnidirectionalCompressionSpring_ctor anchors isFreeEndAttached' coefK coefD
       restLength direction =
     (case tgBulletCompressionSpring_ctor anchors isFreeEndAttached' coefK coefD restLength of
        Inl e \<Rightarrow> Inl e
      | Inr b \<Rightarrow>
          (let s = tgBulletCompressionSpring.extend b
                     (tgBulletUnidirectionalCompressionSpring.fields direction)
           in case m_direction s of
                None \<Rightarrow> Inl NullDereference
              | Some d \<Rightarrow> if invariant s then Inr s else Inl AssertionFailed))"

subsection \<open>A spring for concrete runs\<close>

text \<open>
  A spring between an anchor on body 1 at world position \<open>p1\<close> and an anchor on body 2
  at world position \<open>p2\<close>, with the members the arguments give.
\<close>

definition test_spring ::
  "bool \<Rightarrow> real \<Rightarrow> real \<Rightarrow> real \<Rightarrow> real \<Rightarrow> btVector3 \<Rightarrow> btVector3 \<Rightarrow> btVector3
     \<Rightarrow> tgBulletUnidirectionalCompressionSpring" where
  "test_spring attached k d rest prev p1 p2 dir =
     \<lparr>m_anchors =
        [Some \<lparr>worldPosition = p1, relativePosition = btVector3 0 0 0, attachedBody = 1\<rparr>,
         Some \<lparr>worldPosition = p2, relativePosition = btVector3 0 0 0, attachedBody = 2\<rparr>],
      anchor1 = Some \<lparr>worldPosition = p1, relativePosition = btVector3 0 0 0, attachedBody = 1\<rparr>,
      anchor2 = Some \<lparr>worldPosition = p2, relativePosition = btVector3 0 0 0, attachedBody = 2\<rparr>,
      m_isFreeEndAttached = attached, m_coefK = k, m_coefD = d, m_restLength = rest,
      m_prevLength = prev, m_velocity = 0, m_dampingForce = 0, m_direction = Some dir\<rparr>"

section \<open>Properties\<close>

subsection \<open>Helper facts\<close>

lemma vec_length_nonneg: "0 \<le> vec_length v"
  by (simp add: vec_length_def vec_dot_def)

lemma vec_length_axis_y: "vec_length (btVector3 0 b 0) = \<bar>b\<bar>"
  by (simp add: vec_length_def vec_dot_def)

lemma vec_length_scale: "vec_length (vec_scale v c) = \<bar>c\<bar> * vec_length v"
proof -
  have "vec_dot (vec_scale v c) (vec_scale v c) = c\<^sup>2 * vec_dot v v"
    by (simp add: vec_dot_def vec_scale_def power2_eq_square algebra_simps)
  then show ?thesis
    by (simp add: vec_length_def real_sqrt_mult)
qed

lemma sum_three_squares_zero:
  fixes a b c :: real
  shows "a * a + b * b + c * c = 0 \<longleftrightarrow> a = 0 \<and> b = 0 \<and> c = 0"
proof
  assume h: "a * a + b * b + c * c = 0"
  have "0 \<le> a * a" "0 \<le> b * b" "0 \<le> c * c" by simp_all
  with h have "a * a = 0" "b * b = 0" "c * c = 0" by linarith+
  then show "a = 0 \<and> b = 0 \<and> c = 0" by simp
next
  assume "a = 0 \<and> b = 0 \<and> c = 0"
  then show "a * a + b * b + c * c = 0" by simp
qed

lemma vec_length_zero_iff: "vec_length (vec_sub p q) = 0 \<longleftrightarrow> p = q"
  by (cases p; cases q)
     (simp add: vec_length_def vec_dot_def vec_sub_def sum_three_squares_zero)

lemma vec_unit_length:
  "p \<noteq> q \<Longrightarrow> vec_length (vec_scale (vec_sub p q) (1 / vec_length (vec_sub p q))) = 1"
  using vec_length_zero_iff [of p q] vec_length_nonneg [of "vec_sub p q"]
  by (simp add: vec_length_scale)

lemma vec_scale_scale: "vec_scale (vec_scale u m) dt = vec_scale u (m * dt)"
  by (simp add: vec_scale_def mult.assoc)

lemma vec_scale_neg: "vec_scale (vec_neg v) dt = vec_neg (vec_scale v dt)"
  by (simp add: vec_scale_def vec_neg_def)

lemma getCurrentSpringLength_policy:
  assumes "getCurrentAnchorDistance s = Inr d0"
  shows "getCurrentSpringLength s =
           Inr (if m_isFreeEndAttached s then d0
                else if d0 < m_restLength s then d0 else m_restLength s)"
  using assms by (simp add: getCurrentSpringLength_def)

lemma getCurrentSpringLength_ignores_direction:
  "getCurrentSpringLength (s\<lparr>m_direction := d\<rparr>) = getCurrentSpringLength s"
  by (simp add: getCurrentSpringLength_def getCurrentAnchorDistance_def
      split: option.splits sum.splits)

lemma getCurrentSpringLength_ignores_history:
  "getCurrentSpringLength (s\<lparr>m_velocity := v, m_dampingForce := f, m_prevLength := p\<rparr>)
     = getCurrentSpringLength s"
  by (simp add: getCurrentSpringLength_def getCurrentAnchorDistance_def
      split: option.splits sum.splits)

lemma invariant_anchors:
  "invariant s \<Longrightarrow> \<exists>a1 a2. anchor1 s = Some a1 \<and> anchor2 s = Some a2"
  by (auto simp: invariant_def)

lemma getCurrentAnchorDistance_value:
  "anchor1 s = Some a1 \<Longrightarrow> anchor2 s = Some a2 \<Longrightarrow>
   getCurrentAnchorDistance s = Inr (vec_length (vec_sub (worldPosition a2) (worldPosition a1)))"
  by (simp add: getCurrentAnchorDistance_def)

lemma policy_length_le_rest:
  assumes "getCurrentSpringLength s = Inr len" "\<not> m_isFreeEndAttached s"
  shows "len \<le> m_restLength s"
  using assms
  by (auto simp: getCurrentSpringLength_def split: sum.splits if_splits)

lemma getSpringForce_value:
  assumes "getCurrentSpringLength s = Inr len" "0 \<le> m_coefK s"
  shows "getSpringForce s = Inr (- m_coefK s * (len - m_restLength s))"
proof (cases "m_isFreeEndAttached s")
  case True
  with assms show ?thesis by (simp add: getSpringForce_def)
next
  case False
  with assms have "len - m_restLength s \<le> 0"
    using policy_length_le_rest [of s len] by simp
  with assms(2) have "m_coefK s * (len - m_restLength s) \<le> 0"
    by (rule mult_nonneg_nonpos)
  with assms(1) show ?thesis by (simp add: getSpringForce_def)
qed

lemma getSpringForce_ignores_damping:
  "getSpringForce (s\<lparr>m_coefD := d, m_velocity := v, m_dampingForce := f, m_prevLength := p\<rparr>)
     = getSpringForce s"
  by (simp add: getSpringForce_def getCurrentSpringLength_def getCurrentAnchorDistance_def
      split: option.splits sum.splits)

lemma invariant_length:
  assumes "invariant s"
  shows "\<exists>len. getCurrentSpringLength s = Inr len"
proof -
  from assms obtain a1 a2 where "anchor1 s = Some a1" "anchor2 s = Some a2"
    using invariant_anchors by blast
  then show ?thesis
    by (simp add: getCurrentSpringLength_policy getCurrentAnchorDistance_value)
qed

lemma getAnchorDirectionUnitVector_value:
  assumes "anchor1 s = Some a1" "anchor2 s = Some a2"
  shows "getAnchorDirectionUnitVector s =
           Inr (vec_scale (vec_sub (worldPosition a2) (worldPosition a1))
                  (1 / vec_length (vec_sub (worldPosition a2) (worldPosition a1))))"
  using assms by (simp add: getAnchorDirectionUnitVector_def Let_def)

lemma calculateAndApplyForce_value:
  assumes "anchor1 s = Some a1" "anchor2 s = Some a2"
    and "getSpringForce s = Inr f" "getCurrentSpringLength s = Inr len"
    and "getAnchorDirectionUnitVector s = Inr u"
  shows "calculateAndApplyForce dt (s, calls) =
    (Ok, (s\<lparr>m_velocity := (len - m_prevLength s) / dt,
             m_dampingForce := - m_coefD s * ((len - m_prevLength s) / dt),
             m_prevLength := len\<rparr>,
          calls @ [Activate (attachedBody a1),
                   ApplyImpulse (attachedBody a1)
                     (vec_scale (vec_scale u (f + - m_coefD s * ((len - m_prevLength s) / dt))) dt)
                     (relativePosition a1),
                   Activate (attachedBody a2),
                   ApplyImpulse (attachedBody a2)
                     (vec_scale (vec_neg (vec_scale u (f + - m_coefD s * ((len - m_prevLength s) / dt)))) dt)
                     (relativePosition a2)]))"
  using assms by (simp add: calculateAndApplyForce_def Let_def)

lemma getSpringForce_ignores_direction:
  "getSpringForce (s\<lparr>m_direction := d\<rparr>) = getSpringForce s"
  by (simp add: getSpringForce_def getCurrentSpringLength_ignores_direction split: sum.splits)

lemma getAnchorDirectionUnitVector_ignores_direction:
  "getAnchorDirectionUnitVector (s\<lparr>m_direction := d\<rparr>) = getAnchorDirectionUnitVector s"
  by (simp add: getAnchorDirectionUnitVector_def split: option.splits)

lemma invariant_after_force:
  assumes "invariant s" "0 \<le> len"
  shows "invariant (s\<lparr>m_velocity := v, m_dampingForce := f, m_prevLength := len\<rparr>)"
  using assms by (simp add: invariant_def)

lemma step_value:
  assumes "0 < dt" "invariant s"
    and "calculateAndApplyForce dt (s, calls) = (Ok, (s', calls'))"
    and "getCurrentSpringLength s' = Inr len" "m_prevLength s' = len"
    and "invariant s'"
  shows "step dt (s, calls) = (if len \<le> 0 then Threw RuntimeError else Ok, (s', calls'))"
  using assms by (simp add: step_def)

lemma calculateAndApplyForce_invariant:
  assumes "invariant s"
  shows "\<exists>a1 a2 f len u.
           anchor1 s = Some a1 \<and> anchor2 s = Some a2 \<and>
           getCurrentSpringLength s = Inr len \<and>
           getSpringForce s = Inr f \<and> f = - m_coefK s * (len - m_restLength s) \<and>
           getAnchorDirectionUnitVector s = Inr u \<and>
           u = vec_scale (vec_sub (worldPosition a2) (worldPosition a1))
                 (1 / vec_length (vec_sub (worldPosition a2) (worldPosition a1))) \<and>
           calculateAndApplyForce dt (s, calls) =
             (Ok, (s\<lparr>m_velocity := (len - m_prevLength s) / dt,
                      m_dampingForce := - m_coefD s * ((len - m_prevLength s) / dt),
                      m_prevLength := len\<rparr>,
                   calls @ [Activate (attachedBody a1),
                     ApplyImpulse (attachedBody a1)
                       (vec_scale (vec_scale u (f + - m_coefD s * ((len - m_prevLength s) / dt))) dt)
                       (relativePosition a1),
                     Activate (attachedBody a2),
                     ApplyImpulse (attachedBody a2)
                       (vec_scale (vec_neg (vec_scale u (f + - m_coefD s * ((len - m_prevLength s) / dt)))) dt)
                       (relativePosition a2)]))"
proof -
  from assms obtain a1 a2 where a: "anchor1 s = Some a1" "anchor2 s = Some a2"
    using invariant_anchors by blast
  from assms obtain len where len: "getCurrentSpringLength s = Inr len"
    using invariant_length by blast
  from assms have "0 \<le> m_coefK s" by (simp add: invariant_def)
  with len have f: "getSpringForce s = Inr (- m_coefK s * (len - m_restLength s))"
    by (rule getSpringForce_value)
  note u = getAnchorDirectionUnitVector_value [OF a]
  note c = calculateAndApplyForce_value [OF a f len u, of dt calls]
  from a len f u c show ?thesis by blast
qed

lemma spring_length_nonneg:
  assumes "invariant s" "getCurrentSpringLength s = Inr len"
  shows "0 \<le> len"
proof -
  from assms(1) obtain a1 a2 where a: "anchor1 s = Some a1" "anchor2 s = Some a2"
    using invariant_anchors by blast
  from assms(1) have "0 \<le> m_restLength s" by (simp add: invariant_def)
  with assms(2) show ?thesis
    using vec_length_nonneg [of "vec_sub (worldPosition a2) (worldPosition a1)"]
    by (auto simp: getCurrentSpringLength_policy [OF getCurrentAnchorDistance_value [OF a]]
        split: if_splits)
qed

lemma getCurrentSpringLength_error:
  "getCurrentSpringLength s = Inl e \<Longrightarrow> e = NullDereference"
  by (auto simp: getCurrentSpringLength_def getCurrentAnchorDistance_def
      split: sum.splits option.splits if_splits)

lemma step_Threw_RuntimeError_cases:
  assumes "fst (step dt (s, calls)) = Threw RuntimeError"
  shows "0 < dt \<and> (\<exists>s' calls' len. calculateAndApplyForce dt (s, calls) = (Ok, (s', calls')) \<and>
           getCurrentSpringLength s' = Inr len \<and> len \<le> 0 \<and>
           step dt (s, calls) = (Threw RuntimeError, (s', calls')))"
proof -
  have calc_no_RuntimeError: "fst (calculateAndApplyForce dt (s, calls)) \<noteq> Threw RuntimeError"
    by (auto simp: calculateAndApplyForce_def Let_def getSpringForce_def
        getCurrentSpringLength_def getCurrentAnchorDistance_def getAnchorDirectionUnitVector_def
        split: sum.splits option.splits if_splits)
  with assms show ?thesis
    by (auto simp: step_def dest: getCurrentSpringLength_error
        split: if_splits prod.splits outcome.splits sum.splits)
qed

lemma ctor_valid:
  assumes "0 < k" "0 \<le> d" "0 \<le> rest" "a1 \<noteq> None" "a2 \<noteq> None" "dir \<noteq> None"
  shows "tgBulletUnidirectionalCompressionSpring_ctor (a1 # a2 # rest_anchors) fe k d rest dir =
           Inr \<lparr>m_anchors = a1 # a2 # rest_anchors, anchor1 = a1, anchor2 = a2,
                m_isFreeEndAttached = fe, m_coefK = k, m_coefD = d,
                m_restLength = rest, m_prevLength = rest,
                m_velocity = 0, m_dampingForce = 0, m_direction = dir\<rparr>"
  using assms
  by (auto simp: tgBulletUnidirectionalCompressionSpring_ctor_def tgBulletCompressionSpring_ctor_def
      invariant_def Let_def tgBulletCompressionSpring.defs tgBulletUnidirectionalCompressionSpring.defs)

lemma ctor_invariant:
  "tgBulletUnidirectionalCompressionSpring_ctor anchors fe k d rest dir = Inr s \<Longrightarrow> invariant s"
  by (auto simp: tgBulletUnidirectionalCompressionSpring_ctor_def Let_def
      split: sum.splits option.splits if_splits)

lemma step_under_invariant:
  assumes "0 < dt" "invariant s"
  shows "\<exists>a1 a2 f len u s' calls'.
           anchor1 s = Some a1 \<and> anchor2 s = Some a2 \<and>
           getCurrentSpringLength s = Inr len \<and>
           getSpringForce s = Inr f \<and> f = - m_coefK s * (len - m_restLength s) \<and>
           getAnchorDirectionUnitVector s = Inr u \<and>
           u = vec_scale (vec_sub (worldPosition a2) (worldPosition a1))
                 (1 / vec_length (vec_sub (worldPosition a2) (worldPosition a1))) \<and>
           s' = s\<lparr>m_velocity := (len - m_prevLength s) / dt,
                   m_dampingForce := - m_coefD s * ((len - m_prevLength s) / dt),
                   m_prevLength := len\<rparr> \<and>
           calls' = calls @ [Activate (attachedBody a1),
                     ApplyImpulse (attachedBody a1)
                       (vec_scale (vec_scale u (f + - m_coefD s * ((len - m_prevLength s) / dt))) dt)
                       (relativePosition a1),
                     Activate (attachedBody a2),
                     ApplyImpulse (attachedBody a2)
                       (vec_scale (vec_neg (vec_scale u (f + - m_coefD s * ((len - m_prevLength s) / dt)))) dt)
                       (relativePosition a2)] \<and>
           calculateAndApplyForce dt (s, calls) = (Ok, (s', calls')) \<and>
           getCurrentSpringLength s' = Inr len \<and> invariant s' \<and>
           step dt (s, calls) = (if len \<le> 0 then Threw RuntimeError else Ok, (s', calls'))"
proof -
  from calculateAndApplyForce_invariant [OF assms(2), of dt calls]
  obtain a1 a2 f len u where a: "anchor1 s = Some a1" "anchor2 s = Some a2"
    and len: "getCurrentSpringLength s = Inr len"
    and f: "getSpringForce s = Inr f" "f = - m_coefK s * (len - m_restLength s)"
    and u: "getAnchorDirectionUnitVector s = Inr u"
       "u = vec_scale (vec_sub (worldPosition a2) (worldPosition a1))
                 (1 / vec_length (vec_sub (worldPosition a2) (worldPosition a1)))"
    and c: "calculateAndApplyForce dt (s, calls) =
             (Ok, (s\<lparr>m_velocity := (len - m_prevLength s) / dt,
                      m_dampingForce := - m_coefD s * ((len - m_prevLength s) / dt),
                      m_prevLength := len\<rparr>,
                   calls @ [Activate (attachedBody a1),
                     ApplyImpulse (attachedBody a1)
                       (vec_scale (vec_scale u (f + - m_coefD s * ((len - m_prevLength s) / dt))) dt)
                       (relativePosition a1),
                     Activate (attachedBody a2),
                     ApplyImpulse (attachedBody a2)
                       (vec_scale (vec_neg (vec_scale u (f + - m_coefD s * ((len - m_prevLength s) / dt)))) dt)
                       (relativePosition a2)]))"
    by blast
  let ?s' = "s\<lparr>m_velocity := (len - m_prevLength s) / dt,
                m_dampingForce := - m_coefD s * ((len - m_prevLength s) / dt),
                m_prevLength := len\<rparr>"
  have len': "getCurrentSpringLength ?s' = Inr len"
    using len by (simp add: getCurrentSpringLength_ignores_history)
  from assms(2) len have "0 \<le> len" by (rule spring_length_nonneg)
  with assms(2) have i': "invariant ?s'" by (rule invariant_after_force)
  have p: "m_prevLength ?s' = len" by simp
  note st = step_value [OF assms c len' p i']
  from a len f u c len' i' st show ?thesis by blast
qed

lemma calculateAndApplyForce_Ok_cases:
  assumes "calculateAndApplyForce dt (s, calls) = (Ok, (s', calls'))"
  shows "\<exists>a1 a2 f len u. anchor1 s = Some a1 \<and> anchor2 s = Some a2 \<and>
           getSpringForce s = Inr f \<and> getCurrentSpringLength s = Inr len \<and>
           getAnchorDirectionUnitVector s = Inr u"
  using assms
  by (auto simp: calculateAndApplyForce_def Let_def split: sum.splits option.splits)

lemma step_outcome_by_spring_length:
  assumes "0 < dt" "invariant s"
  shows "\<exists>s' calls' len.
           calculateAndApplyForce dt (s, calls) = (Ok, (s', calls')) \<and>
           getCurrentSpringLength s' = Inr len \<and>
           getCurrentSpringLength s = Inr len \<and>
           (len \<le> 0 \<longrightarrow> step dt (s, calls) = (Threw RuntimeError, (s', calls'))) \<and>
           (0 < len \<longrightarrow> step dt (s, calls) = (Ok, (s', calls')))"
proof -
  from calculateAndApplyForce_invariant [OF assms(2), of dt calls]
  obtain len s' calls' where len: "getCurrentSpringLength s = Inr len"
    and s': "s' = s\<lparr>m_velocity := (len - m_prevLength s) / dt,
                     m_dampingForce := - m_coefD s * ((len - m_prevLength s) / dt),
                     m_prevLength := len\<rparr>"
    and c: "calculateAndApplyForce dt (s, calls) = (Ok, (s', calls'))"
    by blast
  from len s' have len': "getCurrentSpringLength s' = Inr len"
    by (simp add: getCurrentSpringLength_ignores_history)
  from assms(2) len have "0 \<le> len" by (rule spring_length_nonneg)
  with assms(2) s' have i': "invariant s'" by (simp add: invariant_after_force)
  from s' have p: "m_prevLength s' = len" by simp
  from step_value [OF assms c len' p i'] c len len' show ?thesis by auto
qed

subsection \<open>The length policy and the distance it is applied to\<close>

text \<open>
  C1. The effective length is specified against the axial distance between the
  anchors, the separation measured along \<^verbatim>\<open>m_direction\<close>: with the free end attached
  the two are to be equal. \<^verbatim>\<open>getCurrentSpringLength\<close> reads
  \<^verbatim>\<open>getCurrentAnchorDistance()\<close> instead (the policy table over that value is
  \<open>getCurrentSpringLength_policy\<close>). With the free end attached, anchors at \<open>(0,0,0)\<close>
  and \<open>(2,0,0)\<close> and the direction \<open>(0,1,0)\<close>, the axial distance is \<open>0\<close> and the length
  returned is \<open>2\<close>.
\<close>

theorem spring_length_not_axial_distance:
  "getCurrentAnchorDistanceAlongDirection
     (test_spring True 100 0 1 1 (btVector3 0 0 0) (btVector3 2 0 0) (btVector3 0 1 0)) = Inr 0 \<and>
   getCurrentSpringLength
     (test_spring True 100 0 1 1 (btVector3 0 0 0) (btVector3 2 0 0) (btVector3 0 1 0)) = Inr 2"
  by (simp add: test_spring_def getCurrentSpringLength_def getCurrentAnchorDistance_def
      getCurrentAnchorDistanceAlongDirection_def vec_length_def vec_dot_def vec_sub_def)

text \<open>
  C2. \<^verbatim>\<open>getCurrentAnchorDistanceAlongDirection\<close> computes the signed projection of the
  vector from anchor1 to anchor2 onto \<^verbatim>\<open>m_direction\<close>, but it is not the distance the
  length policy is applied to: \<^verbatim>\<open>getCurrentSpringLength\<close> does not call it. With the
  free end not attached, rest length \<open>1\<close>, anchors at \<open>(0,0,0)\<close> and \<open>(0,-2,0)\<close> and the
  direction \<open>(0,1,0)\<close>, the projection is \<open>-2\<close>, below the rest length, and the length
  returned is the rest length \<open>1\<close>.
\<close>

theorem length_policy_not_applied_to_projection:
  "getCurrentAnchorDistanceAlongDirection
     (test_spring False 100 0 1 1 (btVector3 0 0 0) (btVector3 0 (- 2) 0) (btVector3 0 1 0))
     = Inr (- 2) \<and>
   getCurrentSpringLength
     (test_spring False 100 0 1 1 (btVector3 0 0 0) (btVector3 0 (- 2) 0) (btVector3 0 1 0))
     = Inr 1"
  by (simp add: test_spring_def getCurrentSpringLength_def getCurrentAnchorDistance_def
      getCurrentAnchorDistanceAlongDirection_def vec_length_def vec_dot_def vec_sub_def)

subsection \<open>The spring force\<close>

text \<open>
  C3. For every spring that satisfies the class invariant, \<^verbatim>\<open>getSpringForce\<close> returns
  exactly \<open>- k * (currentSpringLength - restLength)\<close>, with \<open>k\<close> the stiffness
  coefficient; a length below the rest length (compression) gives a positive
  (repulsive) force; and the value does not depend on the damping coefficient, the
  damping force, the velocity or the previous length, so it holds no damping
  contribution.
\<close>

theorem getSpringForce_formula:
  assumes "invariant s"
  shows "\<exists>len. getCurrentSpringLength s = Inr len \<and>
           getSpringForce s = Inr (- m_coefK s * (len - m_restLength s)) \<and>
           (len < m_restLength s \<longrightarrow> 0 < - m_coefK s * (len - m_restLength s)) \<and>
           (\<forall>d v f p. getSpringForce
                        (s\<lparr>m_coefD := d, m_velocity := v, m_dampingForce := f, m_prevLength := p\<rparr>)
                      = getSpringForce s)"
proof -
  from assms obtain len where len: "getCurrentSpringLength s = Inr len"
    using invariant_length by blast
  from assms have k: "0 < m_coefK s" by (simp add: invariant_def)
  then have f: "getSpringForce s = Inr (- m_coefK s * (len - m_restLength s))"
    using getSpringForce_value [OF len] by simp
  have "0 < - m_coefK s * (len - m_restLength s)" if "len < m_restLength s"
  proof -
    from that have "0 < m_restLength s - len" by simp
    with k have "0 < m_coefK s * (m_restLength s - len)" by (rule mult_pos_pos)
    then show ?thesis by (simp add: algebra_simps)
  qed
  with len f show ?thesis
    by (auto simp: getSpringForce_ignores_damping)
qed

theorem getSpringForce_formula_witness:
  "invariant (test_spring False 100 0 1 1 (btVector3 0 0 0) (btVector3 0 (4 / 5) 0) (btVector3 0 1 0)) \<and>
   getCurrentSpringLength
     (test_spring False 100 0 1 1 (btVector3 0 0 0) (btVector3 0 (4 / 5) 0) (btVector3 0 1 0)) = Inr (4 / 5) \<and>
   getSpringForce
     (test_spring False 100 0 1 1 (btVector3 0 0 0) (btVector3 0 (4 / 5) 0) (btVector3 0 1 0)) = Inr 20"
proof -
  let ?s = "test_spring False 100 0 1 1 (btVector3 0 0 0) (btVector3 0 (4 / 5) 0) (btVector3 0 1 0)"
  have i: "invariant ?s" by (simp add: invariant_def test_spring_def)
  have l: "getCurrentSpringLength ?s = Inr (4 / 5)"
    by (simp add: getCurrentSpringLength_def getCurrentAnchorDistance_def test_spring_def
        vec_sub_def vec_length_axis_y)
  from getSpringForce_formula [OF i] l
  have "getSpringForce ?s = Inr (- m_coefK ?s * (4 / 5 - m_restLength ?s))" by auto
  then have "getSpringForce ?s = Inr 20" by (simp add: test_spring_def)
  with i l show ?thesis by simp
qed

subsection \<open>The push-only force\<close>

text \<open>
  C8. Whenever the free end is not attached, for a spring with positive stiffness and
  two anchors, the value returned by \<^verbatim>\<open>getSpringForce\<close> is \<open>\<ge> 0\<close> and its assertion
  does not fire (the result is a value, not \<open>AssertionFailed\<close>), wherever the anchors
  are and whatever the damping coefficient is.
\<close>

theorem getSpringForce_nonneg_when_free_end_not_attached:
  fixes a1 a2 :: tgBulletSpringCableAnchor
  assumes "\<not> m_isFreeEndAttached s" "0 < m_coefK s"
    and "anchor1 s = Some a1" "anchor2 s = Some a2"
  shows "\<exists>f. getSpringForce (s\<lparr>m_coefD := d\<rparr>) = Inr f \<and> 0 \<le> f"
proof -
  let ?s = "s\<lparr>m_coefD := d\<rparr>"
  have a: "anchor1 ?s = Some a1" "anchor2 ?s = Some a2" using assms by simp_all
  obtain len where len: "getCurrentSpringLength ?s = Inr len"
    by (simp add: getCurrentSpringLength_policy [OF getCurrentAnchorDistance_value [OF a]])
  from assms have k: "0 \<le> m_coefK ?s" by simp
  have f: "getSpringForce ?s = Inr (- m_coefK ?s * (len - m_restLength ?s))"
    using len k by (rule getSpringForce_value)
  from assms(1) have "len \<le> m_restLength ?s"
    using policy_length_le_rest [OF len] by simp
  then have "len - m_restLength ?s \<le> 0" by simp
  with k have "m_coefK ?s * (len - m_restLength ?s) \<le> 0" by (rule mult_nonneg_nonpos)
  with f show ?thesis by simp
qed

theorem getSpringForce_nonneg_when_free_end_not_attached_witness:
  "\<not> m_isFreeEndAttached
       (test_spring False 100 0 1 1 (btVector3 0 0 0) (btVector3 0 (3 / 2) 0) (btVector3 0 1 0)) \<and>
   0 < m_coefK
       (test_spring False 100 0 1 1 (btVector3 0 0 0) (btVector3 0 (3 / 2) 0) (btVector3 0 1 0)) \<and>
   (\<exists>f. getSpringForce
          ((test_spring False 100 0 1 1 (btVector3 0 0 0) (btVector3 0 (3 / 2) 0) (btVector3 0 1 0))
             \<lparr>m_coefD := 7\<rparr>) = Inr f \<and> 0 \<le> f)"
  using getSpringForce_nonneg_when_free_end_not_attached
    [of "test_spring False 100 0 1 1 (btVector3 0 0 0) (btVector3 0 (3 / 2) 0) (btVector3 0 1 0)"
        "\<lparr>worldPosition = btVector3 0 0 0, relativePosition = btVector3 0 0 0, attachedBody = 1\<rparr>"
        "\<lparr>worldPosition = btVector3 0 (3 / 2) 0, relativePosition = btVector3 0 0 0, attachedBody = 2\<rparr>"
        7]
  by (simp add: test_spring_def)

subsection \<open>Force calculation and application\<close>

text \<open>
  C4. In every call of \<^verbatim>\<open>calculateAndApplyForce(dt)\<close> with \<open>dt > 0\<close> on a spring that
  satisfies the class invariant, the call returns, the velocity estimate stored is
  \<open>(currentSpringLength - previousLength) / dt\<close>, the damping force stored is
  \<open>- d * velocity\<close>, and the force applied is the unit vector times
  \<open>springForce + dampingForce\<close>. With the length going from 0.8 to 0.7 over
  \<open>dt = 0.01\<close> and \<open>d = 5\<close> the velocity is \<open>-10\<close> and the damping force is \<open>50\<close>.
\<close>

theorem calculateAndApplyForce_damping:
  assumes "0 < dt" "invariant s"
  shows "\<exists>len f u a1 a2 s' calls'.
           getCurrentSpringLength s = Inr len \<and> getSpringForce s = Inr f \<and>
           getAnchorDirectionUnitVector s = Inr u \<and>
           anchor1 s = Some a1 \<and> anchor2 s = Some a2 \<and>
           calculateAndApplyForce dt (s, calls) = (Ok, (s', calls')) \<and>
           m_velocity s' = (len - m_prevLength s) / dt \<and>
           m_dampingForce s' = - m_coefD s * m_velocity s' \<and>
           calls' = calls @
             [Activate (attachedBody a1),
              ApplyImpulse (attachedBody a1)
                (vec_scale (vec_scale u (f + m_dampingForce s')) dt) (relativePosition a1),
              Activate (attachedBody a2),
              ApplyImpulse (attachedBody a2)
                (vec_scale (vec_neg (vec_scale u (f + m_dampingForce s'))) dt) (relativePosition a2)]"
  using calculateAndApplyForce_invariant [OF assms(2), of dt calls]
  by (elim exE conjE) (simp only:, simp)

theorem calculateAndApplyForce_damping_witness:
  "(0::real) < 1 / 100 \<and>
   invariant (test_spring False 100 5 1 (4 / 5) (btVector3 0 0 0) (btVector3 0 (7 / 10) 0) (btVector3 0 1 0)) \<and>
   getCurrentSpringLength
     (test_spring False 100 5 1 (4 / 5) (btVector3 0 0 0) (btVector3 0 (7 / 10) 0) (btVector3 0 1 0))
     = Inr (7 / 10) \<and>
   (\<exists>s' calls'.
      calculateAndApplyForce (1 / 100)
        (test_spring False 100 5 1 (4 / 5) (btVector3 0 0 0) (btVector3 0 (7 / 10) 0) (btVector3 0 1 0), [])
        = (Ok, (s', calls')) \<and>
      m_velocity s' = - 10 \<and> m_dampingForce s' = 50)"
proof -
  let ?s = "test_spring False 100 5 1 (4 / 5) (btVector3 0 0 0) (btVector3 0 (7 / 10) 0) (btVector3 0 1 0)"
  have d: "(0::real) < 1 / 100" by simp
  have i: "invariant ?s" by (simp add: invariant_def test_spring_def)
  have l: "getCurrentSpringLength ?s = Inr (7 / 10)"
    by (simp add: getCurrentSpringLength_def getCurrentAnchorDistance_def test_spring_def
        vec_sub_def vec_length_axis_y)
  from calculateAndApplyForce_damping [OF d i, of "[]"] l
  obtain s' calls' where
    c: "calculateAndApplyForce (1 / 100) (?s, []) = (Ok, (s', calls'))"
    and v: "m_velocity s' = (7 / 10 - m_prevLength ?s) / (1 / 100)"
    and f: "m_dampingForce s' = - m_coefD ?s * m_velocity s'"
    by auto
  from v have v': "m_velocity s' = - 10" by (simp add: test_spring_def)
  with f have "m_dampingForce s' = 50" by (simp add: test_spring_def)
  with d i l c v' show ?thesis by blast
qed

text \<open>
  C5. In every \<^verbatim>\<open>step(dt)\<close> with \<open>dt > 0\<close> on a spring that satisfies the class
  invariant, the calls made on the engine are: activate body 1, apply \<open>impulse\<close> to
  body 1 at the relative position of anchor 1, activate body 2, apply \<open>- impulse\<close> to
  body 2 at the relative position of anchor 2, where
  \<open>impulse = unitVector * magnitude * dt\<close> and \<open>magnitude\<close> is the spring force plus the
  damping force. The unit vector is recomputed from the world positions of the two
  anchors (it has length 1 when they differ), and the calls do not depend on
  \<^verbatim>\<open>m_direction\<close>.
\<close>

theorem step_impulses_equal_and_opposite:
  assumes "0 < dt" "invariant s"
  shows "\<exists>a1 a2 u f len magnitude impulse.
           anchor1 s = Some a1 \<and> anchor2 s = Some a2 \<and>
           getAnchorDirectionUnitVector s = Inr u \<and>
           u = vec_scale (vec_sub (worldPosition a2) (worldPosition a1))
                 (1 / vec_length (vec_sub (worldPosition a2) (worldPosition a1))) \<and>
           (worldPosition a1 \<noteq> worldPosition a2 \<longrightarrow> vec_length u = 1) \<and>
           getSpringForce s = Inr f \<and> getCurrentSpringLength s = Inr len \<and>
           magnitude = f + - m_coefD s * ((len - m_prevLength s) / dt) \<and>
           impulse = vec_scale u (magnitude * dt) \<and>
           snd (snd (step dt (s, calls))) = calls @
             [Activate (attachedBody a1), ApplyImpulse (attachedBody a1) impulse (relativePosition a1),
              Activate (attachedBody a2),
              ApplyImpulse (attachedBody a2) (vec_neg impulse) (relativePosition a2)] \<and>
           (\<forall>d. snd (snd (step dt (s\<lparr>m_direction := Some d\<rparr>, calls)))
                  = snd (snd (step dt (s, calls))))"
proof -
  from step_under_invariant [OF assms, of calls]
  obtain a1 a2 f len u where a: "anchor1 s = Some a1" "anchor2 s = Some a2"
    and len: "getCurrentSpringLength s = Inr len"
    and f: "getSpringForce s = Inr f"
    and u: "getAnchorDirectionUnitVector s = Inr u"
       "u = vec_scale (vec_sub (worldPosition a2) (worldPosition a1))
                 (1 / vec_length (vec_sub (worldPosition a2) (worldPosition a1)))"
    and st: "snd (snd (step dt (s, calls))) =
       calls @ [Activate (attachedBody a1),
                     ApplyImpulse (attachedBody a1)
                       (vec_scale (vec_scale u (f + - m_coefD s * ((len - m_prevLength s) / dt))) dt)
                       (relativePosition a1),
                     Activate (attachedBody a2),
                     ApplyImpulse (attachedBody a2)
                       (vec_scale (vec_neg (vec_scale u (f + - m_coefD s * ((len - m_prevLength s) / dt)))) dt)
                       (relativePosition a2)]"
    by auto
  let ?imp = "vec_scale u ((f + - m_coefD s * ((len - m_prevLength s) / dt)) * dt)"
  from st have st': "snd (snd (step dt (s, calls))) = calls @
             [Activate (attachedBody a1), ApplyImpulse (attachedBody a1) ?imp (relativePosition a1),
              Activate (attachedBody a2),
              ApplyImpulse (attachedBody a2) (vec_neg ?imp) (relativePosition a2)]"
    by (simp add: vec_scale_scale vec_scale_neg)
  have unit: "vec_length u = 1" if "worldPosition a1 \<noteq> worldPosition a2"
    using that u(2) vec_unit_length [of "worldPosition a2" "worldPosition a1"] by auto
  have dir: "snd (snd (step dt (s\<lparr>m_direction := Some d\<rparr>, calls)))
                  = snd (snd (step dt (s, calls)))" for d
  proof -
    let ?t = "s\<lparr>m_direction := Some d\<rparr>"
    from assms(2) have it: "invariant ?t" by (simp add: invariant_def)
    from step_under_invariant [OF assms(1) it, of calls] a len f u(1)
    have "snd (snd (step dt (?t, calls))) =
       calls @ [Activate (attachedBody a1),
                     ApplyImpulse (attachedBody a1)
                       (vec_scale (vec_scale u (f + - m_coefD s * ((len - m_prevLength s) / dt))) dt)
                       (relativePosition a1),
                     Activate (attachedBody a2),
                     ApplyImpulse (attachedBody a2)
                       (vec_scale (vec_neg (vec_scale u (f + - m_coefD s * ((len - m_prevLength s) / dt)))) dt)
                       (relativePosition a2)]"
      by (auto simp: getCurrentSpringLength_ignores_direction getSpringForce_ignores_direction
          getAnchorDirectionUnitVector_ignores_direction)
    with st show ?thesis by simp
  qed
  from a u unit f len st' dir show ?thesis by blast
qed

theorem step_impulses_equal_and_opposite_witness:
  "(0::real) < 1 / 100 \<and>
   invariant (test_spring False 100 5 1 (4 / 5) (btVector3 0 0 0) (btVector3 0 (7 / 10) 0) (btVector3 0 1 0)) \<and>
   snd (snd (step (1 / 100)
     (test_spring False 100 5 1 (4 / 5) (btVector3 0 0 0) (btVector3 0 (7 / 10) 0) (btVector3 0 1 0), [])))
     = [Activate 1, ApplyImpulse 1 (btVector3 0 (4 / 5) 0) (btVector3 0 0 0),
        Activate 2, ApplyImpulse 2 (btVector3 0 (- (4 / 5)) 0) (btVector3 0 0 0)]"
proof -
  let ?b = "test_spring False 100 5 1 (4 / 5) (btVector3 0 0 0) (btVector3 0 (7 / 10) 0) (btVector3 0 1 0)"
  have d: "(0::real) < 1 / 100" by simp
  have ib: "invariant ?b" by (simp add: invariant_def test_spring_def)
  have lb: "getCurrentSpringLength ?b = Inr (7 / 10)"
    by (simp add: getCurrentSpringLength_def getCurrentAnchorDistance_def test_spring_def
        vec_sub_def vec_length_axis_y)
  have fb: "getSpringForce ?b = Inr 30"
    using lb by (simp add: getSpringForce_def test_spring_def)
  have ub: "getAnchorDirectionUnitVector ?b = Inr (btVector3 0 1 0)"
    by (simp add: getAnchorDirectionUnitVector_def test_spring_def Let_def
        vec_sub_def vec_length_axis_y vec_scale_def)
  from step_impulses_equal_and_opposite [OF d ib, of "[]"] lb fb ub
  have "snd (snd (step (1 / 100) (?b, []))) =
     [Activate 1, ApplyImpulse 1 (btVector3 0 (4 / 5) 0) (btVector3 0 0 0),
        Activate 2, ApplyImpulse 2 (btVector3 0 (- (4 / 5)) 0) (btVector3 0 0 0)]"
    by (auto simp: test_spring_def vec_scale_def vec_neg_def)
  with d ib show ?thesis by blast
qed

subsection \<open>The errors of step\<close>

text \<open>
  C6. For every \<open>dt \<le> 0\<close>, \<^verbatim>\<open>step(dt)\<close> fails with the invalid-argument condition,
  makes no call on either body (no impulse is applied), and leaves the state of the
  spring, the previous length included, as it was.
\<close>

theorem step_nonpositive_dt_rejected:
  "dt \<le> 0 \<Longrightarrow> step dt (s, calls) = (Threw InvalidArgument, (s, calls))"
  by (simp add: step_def)

theorem step_nonpositive_dt_rejected_witness:
  "(- 1 / 2 :: real) \<le> 0 \<and>
   step (- 1 / 2)
     (\<lparr>m_anchors = [], anchor1 = None, anchor2 = None, m_isFreeEndAttached = False,
       m_coefK = 100, m_coefD = 5, m_restLength = 1, m_prevLength = 1, m_velocity = 0,
       m_dampingForce = 0, m_direction = None\<rparr>, [Activate 7])
   = (Threw InvalidArgument,
      (\<lparr>m_anchors = [], anchor1 = None, anchor2 = None, m_isFreeEndAttached = False,
        m_coefK = 100, m_coefD = 5, m_restLength = 1, m_prevLength = 1, m_velocity = 0,
        m_dampingForce = 0, m_direction = None\<rparr>, [Activate 7]))"
  using step_nonpositive_dt_rejected [of "- 1 / 2"] by simp

text \<open>
  C7. The fatal condition is specified against the axial length of the spring, and
  the comment in \<^verbatim>\<open>step\<close> speaks of a distance that has gone negative. \<^verbatim>\<open>step\<close> tests
  \<^verbatim>\<open>getCurrentSpringLength()\<close>, which is computed from \<^verbatim>\<open>getCurrentAnchorDistance()\<close>
  and not from the projection onto \<^verbatim>\<open>m_direction\<close> (what \<^verbatim>\<open>step\<close> does with that value
  is \<open>step_outcome_by_spring_length\<close>). With the free end not attached, rest length \<open>1\<close>,
  anchors at \<open>(0,0,0)\<close> and \<open>(0,-3,0)\<close>, the direction \<open>(0,1,0)\<close> and \<open>dt = 0.01\<close>, the
  class invariant holds and the axial distance is \<open>-3\<close>, so the axial length is
  \<open>\<le> 0\<close>; the length tested is \<open>1\<close> and \<^verbatim>\<open>step\<close> returns normally.
\<close>

theorem step_succeeds_with_negative_axial_distance:
  "invariant (test_spring False 100 5 1 1 (btVector3 0 0 0) (btVector3 0 (- 3) 0) (btVector3 0 1 0)) \<and>
   getCurrentAnchorDistanceAlongDirection
     (test_spring False 100 5 1 1 (btVector3 0 0 0) (btVector3 0 (- 3) 0) (btVector3 0 1 0))
     = Inr (- 3) \<and>
   getCurrentSpringLength
     (test_spring False 100 5 1 1 (btVector3 0 0 0) (btVector3 0 (- 3) 0) (btVector3 0 1 0))
     = Inr 1 \<and>
   fst (step (1 / 100)
     (test_spring False 100 5 1 1 (btVector3 0 0 0) (btVector3 0 (- 3) 0) (btVector3 0 1 0), []))
     = Ok"
proof -
  let ?s = "test_spring False 100 5 1 1 (btVector3 0 0 0) (btVector3 0 (- 3) 0) (btVector3 0 1 0)"
  have d: "(0::real) < 1 / 100" by simp
  have i: "invariant ?s" by (simp add: invariant_def test_spring_def)
  have p: "getCurrentAnchorDistanceAlongDirection ?s = Inr (- 3)"
    by (simp add: getCurrentAnchorDistanceAlongDirection_def test_spring_def
        vec_sub_def vec_dot_def)
  have l: "getCurrentSpringLength ?s = Inr 1"
    by (simp add: getCurrentSpringLength_def getCurrentAnchorDistance_def test_spring_def
        vec_sub_def vec_length_axis_y)
  from step_under_invariant [OF d i, of "[]"] l
  have "fst (step (1 / 100) (?s, [])) = Ok" by auto
  with i p l show ?thesis by blast
qed

subsection \<open>The fatal error is raised after the state is written\<close>

text \<open>
  C10. When \<^verbatim>\<open>step(dt)\<close> fails with the fatal-length error, the state returned with the
  error is not the state at entry: both bodies have been activated and have received
  their impulses for this step, \<open>force * dt\<close> and \<open>- force * dt\<close>, and the previous
  length has been overwritten with the new length.
\<close>

theorem fatal_step_not_atomic:
  assumes "fst (step dt (s, calls)) = Threw RuntimeError"
  shows "\<exists>a1 a2 len f u force.
           anchor1 s = Some a1 \<and> anchor2 s = Some a2 \<and>
           getCurrentSpringLength s = Inr len \<and> len \<le> 0 \<and>
           getSpringForce s = Inr f \<and> getAnchorDirectionUnitVector s = Inr u \<and>
           force = vec_scale u (f + - m_coefD s * ((len - m_prevLength s) / dt)) \<and>
           m_prevLength (fst (snd (step dt (s, calls)))) = len \<and>
           snd (snd (step dt (s, calls))) = calls @
             [Activate (attachedBody a1),
              ApplyImpulse (attachedBody a1) (vec_scale force dt) (relativePosition a1),
              Activate (attachedBody a2),
              ApplyImpulse (attachedBody a2) (vec_scale (vec_neg force) dt) (relativePosition a2)] \<and>
           snd (step dt (s, calls)) \<noteq> (s, calls)"
proof -
  from step_Threw_RuntimeError_cases [OF assms]
  obtain s' calls' len' where
    c: "calculateAndApplyForce dt (s, calls) = (Ok, (s', calls'))"
    and l': "getCurrentSpringLength s' = Inr len'" "len' \<le> 0"
    and st: "step dt (s, calls) = (Threw RuntimeError, (s', calls'))"
    by blast
  from calculateAndApplyForce_Ok_cases [OF c]
  obtain a1 a2 f len u where a: "anchor1 s = Some a1" "anchor2 s = Some a2"
    and f: "getSpringForce s = Inr f" and len: "getCurrentSpringLength s = Inr len"
    and u: "getAnchorDirectionUnitVector s = Inr u"
    by blast
  note v = calculateAndApplyForce_value [OF a f len u, of dt calls]
  with c have s': "s' = s\<lparr>m_velocity := (len - m_prevLength s) / dt,
             m_dampingForce := - m_coefD s * ((len - m_prevLength s) / dt),
             m_prevLength := len\<rparr>"
    and calls': "calls' = calls @ [Activate (attachedBody a1),
                   ApplyImpulse (attachedBody a1)
                     (vec_scale (vec_scale u (f + - m_coefD s * ((len - m_prevLength s) / dt))) dt)
                     (relativePosition a1),
                   Activate (attachedBody a2),
                   ApplyImpulse (attachedBody a2)
                     (vec_scale (vec_neg (vec_scale u (f + - m_coefD s * ((len - m_prevLength s) / dt)))) dt)
                     (relativePosition a2)]"
    by simp_all
  from s' l'(1) len have "len' = len"
    by (simp add: getCurrentSpringLength_ignores_history)
  with l'(2) have le: "len \<le> 0" by simp
  from s' have p: "m_prevLength s' = len" by simp
  from calls' have ne: "calls' \<noteq> calls" by simp
  from a len le f u st p calls' ne show ?thesis by simp
qed

theorem fatal_step_not_atomic_witness:
  "fst (step (1 / 100)
     (test_spring False 100 5 0 1 (btVector3 0 0 0) (btVector3 0 1 0) (btVector3 0 1 0), []))
     = Threw RuntimeError \<and>
   m_prevLength (test_spring False 100 5 0 1 (btVector3 0 0 0) (btVector3 0 1 0) (btVector3 0 1 0)) = 1 \<and>
   m_prevLength (fst (snd (step (1 / 100)
     (test_spring False 100 5 0 1 (btVector3 0 0 0) (btVector3 0 1 0) (btVector3 0 1 0), [])))) = 0 \<and>
   snd (snd (step (1 / 100)
     (test_spring False 100 5 0 1 (btVector3 0 0 0) (btVector3 0 1 0) (btVector3 0 1 0), [])))
     = [Activate 1, ApplyImpulse 1 (btVector3 0 5 0) (btVector3 0 0 0),
        Activate 2, ApplyImpulse 2 (btVector3 0 (- 5) 0) (btVector3 0 0 0)]"
proof -
  let ?a = "test_spring False 100 5 0 1 (btVector3 0 0 0) (btVector3 0 1 0) (btVector3 0 1 0)"
  have d: "(0::real) < 1 / 100" by simp
  have ia: "invariant ?a" by (simp add: invariant_def test_spring_def)
  have la: "getCurrentSpringLength ?a = Inr 0"
    by (simp add: getCurrentSpringLength_def getCurrentAnchorDistance_def test_spring_def
        vec_sub_def vec_length_axis_y)
  have fa: "getSpringForce ?a = Inr 0"
    using la by (simp add: getSpringForce_def test_spring_def)
  have ua: "getAnchorDirectionUnitVector ?a = Inr (btVector3 0 1 0)"
    by (simp add: getAnchorDirectionUnitVector_def test_spring_def Let_def
        vec_sub_def vec_length_axis_y vec_scale_def)
  from step_under_invariant [OF d ia, of "[]"] la
  have h: "fst (step (1 / 100) (?a, [])) = Threw RuntimeError" by auto
  from fatal_step_not_atomic [OF h] la fa ua
  have "m_prevLength (fst (snd (step (1 / 100) (?a, [])))) = 0"
    and "snd (snd (step (1 / 100) (?a, []))) =
       [Activate 1, ApplyImpulse 1 (btVector3 0 5 0) (btVector3 0 0 0),
        Activate 2, ApplyImpulse 2 (btVector3 0 (- 5) 0) (btVector3 0 0 0)]"
    by (auto simp: test_spring_def vec_scale_def vec_neg_def)
  moreover have "m_prevLength ?a = 1" by (simp add: test_spring_def)
  ultimately show ?thesis using h by blast
qed

subsection \<open>The class invariant\<close>

text \<open>
  C9. The class invariant holds immediately after construction: a construction with
  positive stiffness, non-negative damping and rest length, a non-null direction and
  at least two anchors, the first two non-null, returns a spring, and every spring
  the constructor returns satisfies the invariant. It holds after every
  \<^verbatim>\<open>step(dt)\<close> that starts from a spring satisfying it and does not end in the
  fatal-length error.
\<close>

theorem invariant_after_construction_and_step:
  "(0 < k \<and> 0 \<le> d \<and> 0 \<le> rest \<and> a1 \<noteq> None \<and> a2 \<noteq> None \<and> dir \<noteq> None \<longrightarrow>
      (\<exists>s1. tgBulletUnidirectionalCompressionSpring_ctor (a1 # a2 # rest_anchors) fe k d rest dir
               = Inr s1 \<and> invariant s1)) \<and>
   (tgBulletUnidirectionalCompressionSpring_ctor anchors fe' k' d' rest' dir' = Inr s0 \<longrightarrow>
      invariant s0) \<and>
   (invariant s \<and> fst (step dt (s, calls)) \<noteq> Threw RuntimeError \<longrightarrow>
      invariant (fst (snd (step dt (s, calls)))))"
proof (intro conjI impI)
  assume v: "0 < k \<and> 0 \<le> d \<and> 0 \<le> rest \<and> a1 \<noteq> None \<and> a2 \<noteq> None \<and> dir \<noteq> None"
  then have "\<exists>s1. tgBulletUnidirectionalCompressionSpring_ctor (a1 # a2 # rest_anchors) fe k d rest dir
               = Inr s1"
    by (simp add: ctor_valid)
  then show "\<exists>s1. tgBulletUnidirectionalCompressionSpring_ctor (a1 # a2 # rest_anchors) fe k d rest dir
               = Inr s1 \<and> invariant s1"
    using ctor_invariant by blast
next
  assume "tgBulletUnidirectionalCompressionSpring_ctor anchors fe' k' d' rest' dir' = Inr s0"
  then show "invariant s0" by (rule ctor_invariant)
next
  assume h: "invariant s \<and> fst (step dt (s, calls)) \<noteq> Threw RuntimeError"
  show "invariant (fst (snd (step dt (s, calls))))"
  proof (cases "dt \<le> 0")
    case True
    with h show ?thesis by (simp add: step_def)
  next
    case False
    then have "0 < dt" by simp
    from step_under_invariant [OF this, of s calls] h
    show ?thesis by auto
  qed
qed

theorem invariant_after_construction_and_step_witness:
  "tgBulletUnidirectionalCompressionSpring_ctor
     [Some \<lparr>worldPosition = btVector3 0 0 0, relativePosition = btVector3 0 0 0, attachedBody = 1\<rparr>,
      Some \<lparr>worldPosition = btVector3 0 1 0, relativePosition = btVector3 0 0 0, attachedBody = 2\<rparr>]
     False 100 5 1 (Some (btVector3 0 1 0))
     = Inr (test_spring False 100 5 1 1 (btVector3 0 0 0) (btVector3 0 1 0) (btVector3 0 1 0)) \<and>
   invariant (test_spring False 100 5 1 1 (btVector3 0 0 0) (btVector3 0 1 0) (btVector3 0 1 0)) \<and>
   invariant (test_spring False 100 5 1 (4 / 5) (btVector3 0 0 0) (btVector3 0 (7 / 10) 0) (btVector3 0 1 0)) \<and>
   fst (step (1 / 100)
     (test_spring False 100 5 1 (4 / 5) (btVector3 0 0 0) (btVector3 0 (7 / 10) 0) (btVector3 0 1 0), []))
     \<noteq> Threw RuntimeError \<and>
   invariant (fst (snd (step (1 / 100)
     (test_spring False 100 5 1 (4 / 5) (btVector3 0 0 0) (btVector3 0 (7 / 10) 0) (btVector3 0 1 0), []))))"
proof -
  let ?b = "test_spring False 100 5 1 (4 / 5) (btVector3 0 0 0) (btVector3 0 (7 / 10) 0) (btVector3 0 1 0)"
  let ?c = "test_spring False 100 5 1 1 (btVector3 0 0 0) (btVector3 0 1 0) (btVector3 0 1 0)"
  let ?A1 = "Some \<lparr>worldPosition = btVector3 0 0 0, relativePosition = btVector3 0 0 0, attachedBody = 1::nat\<rparr>"
  let ?A2 = "Some \<lparr>worldPosition = btVector3 0 1 0, relativePosition = btVector3 0 0 0, attachedBody = 2::nat\<rparr>"
  have d: "(0::real) < 1 / 100" by simp
  have ib: "invariant ?b" by (simp add: invariant_def test_spring_def)
  have lb: "getCurrentSpringLength ?b = Inr (7 / 10)"
    by (simp add: getCurrentSpringLength_def getCurrentAnchorDistance_def test_spring_def
        vec_sub_def vec_length_axis_y)
  from step_under_invariant [OF d ib, of "[]"] lb
  have rb: "fst (step (1 / 100) (?b, [])) \<noteq> Threw RuntimeError" by auto
  have c: "tgBulletUnidirectionalCompressionSpring_ctor [?A1, ?A2] False 100 5 1
             (Some (btVector3 0 1 0)) = Inr ?c"
    by (simp add: ctor_valid test_spring_def)
  note t = invariant_after_construction_and_step
    [where k = 100 and d = 5 and rest = 1 and ?a1.0 = ?A1 and ?a2.0 = ?A2
       and dir = "Some (btVector3 0 1 0)" and rest_anchors = "[]" and fe = False
       and anchors = "[?A1, ?A2]" and fe' = False and k' = 100 and d' = 5 and rest' = 1
       and dir' = "Some (btVector3 0 1 0)" and ?s0.0 = ?c
       and s = ?b and dt = "1 / 100" and calls = "[]"]
  from t c have "invariant ?c" by blast
  moreover from t ib rb have "invariant (fst (snd (step (1 / 100) (?b, []))))"
    by blast
  ultimately show ?thesis using c ib rb by blast
qed

end
